theory Spec2Isabelle
  imports Complex_Main "HOL-Library.AList"
begin

section \<open>Conventions of the embedding\<close>

text \<open>
  The development embeds the progression core of the repository: the models of
  \<^verbatim>\<open>backend/models/memory.py\<close> and \<^verbatim>\<open>backend/models/cognitive_state.py\<close>, the rules
  of \<^verbatim>\<open>backend/services/evolution_engine.py\<close> and the loop life cycle of
  \<^verbatim>\<open>backend/services/loop_manager.py\<close>.

  \<^item> A Python \<^verbatim>\<open>float\<close> is the real number it denotes, and arithmetic on floats is exact
    real arithmetic, so rounding, infinities and NaN are outside the model; Python
    \<^verbatim>\<open>int\<close> is \<open>int\<close>. The one exception is \<^verbatim>\<open>calculate_protocol_difficulty\<close>, whose answer
    turns on comparing a computed mean with breakpoints: there the float sum and the float
    division are parameters of the model, so that what is proved holds for the results
    the interpreter rounds to.
  \<^item> A \<^verbatim>\<open>dict\<close> is an association list in insertion order; assigning to a present key
    keeps its position and assigning to a new key appends (\<open>AList.update\<close>), \<^verbatim>\<open>del\<close> is
    \<open>AList.delete\<close>, and a lookup is \<open>map_of\<close>.
  \<^item> A \<^verbatim>\<open>datetime\<close> is a number of seconds (an \<open>int\<close>); every call of
    \<^verbatim>\<open>datetime.utcnow()\<close> is a parameter \<open>now\<close> of the function that makes it.
  \<^item> An exception is a value \<open>Inl e\<close> of a sum type.
  \<^item> Methods take the object as their first argument and return the mutated object.
\<close>

datatype py_error = ZeroDivisionError | KeyError

text \<open>Python's \<^verbatim>\<open>int(x)\<close> on a float truncates towards zero.\<close>

definition py_int :: "real \<Rightarrow> int" where
  "py_int x = (if 0 \<le> x then \<lfloor>x\<rfloor> else \<lceil>x\<rceil>)"

text \<open>The slice \<^verbatim>\<open>xs[:c]\<close>: a negative bound counts from the end of the list.\<close>

definition py_slice_to :: "int \<Rightarrow> 'a list \<Rightarrow> 'a list" where
  "py_slice_to c xs = (if 0 \<le> c then take (nat c) xs else take (nat (int (length xs) + c)) xs)"

text \<open>\<^verbatim>\<open>d.get(k, default)\<close> on a dictionary.\<close>

definition dict_get :: "('k \<times> 'v) list \<Rightarrow> 'k \<Rightarrow> 'v \<Rightarrow> 'v" where
  "dict_get d k dflt = (case map_of d k of None \<Rightarrow> dflt | Some v \<Rightarrow> v)"

text \<open>
  \<^verbatim>\<open>xs.sort(key=f, reverse=True)\<close> and \<^verbatim>\<open>sorted(xs, key=f, reverse=True)\<close>: descending by
  key, elements with equal keys staying in their original order.
\<close>

definition sort_desc :: "('a \<Rightarrow> real) \<Rightarrow> 'a list \<Rightarrow> 'a list" where
  "sort_desc f xs = sort_key (\<lambda>x. - f x) xs"

section \<open>Memory system (\<^verbatim>\<open>backend/models/memory.py\<close>)\<close>

datatype MemoryType =
  DECISION | LESSON | MENTOR_WISDOM | EMOTIONAL_MOMENT | DISCOVERY | FAILURE | BREAKTHROUGH
  | SOCIAL_INTERACTION

datatype MemoryImportance = TRIVIAL | MINOR | SIGNIFICANT | CRITICAL | CORE

text \<open>
  The field \<^verbatim>\<open>context\<close> (a dictionary of arbitrary values) is left out: no modelled
  function reads it.
\<close>

record Memory =
  mem_id :: string
  mem_player_id :: string
  mem_loop_number :: int
  mem_type :: MemoryType
  importance :: MemoryImportance
  title :: string
  content :: string
  cognitive_impact :: "(string \<times> real) list"
  related_protocol :: "string option"
  mentor_source :: "string option"
  emotional_valence :: real
  created_at :: int
  access_count :: int
  last_accessed :: "int option"
  tags :: "string list"

fun importance_multiplier :: "MemoryImportance \<Rightarrow> real" where
  "importance_multiplier TRIVIAL = 5 / 10"
| "importance_multiplier MINOR = 7 / 10"
| "importance_multiplier SIGNIFICANT = 9 / 10"
| "importance_multiplier CRITICAL = 95 / 100"
| "importance_multiplier CORE = 1"

definition access :: "int \<Rightarrow> Memory \<Rightarrow> Memory" where
  "access now m = m\<lparr>access_count := access_count m + 1, last_accessed := Some now\<rparr>"

text \<open>
  \<^verbatim>\<open>get_decay_factor\<close>: \<^verbatim>\<open>timedelta.days\<close> is the floor of the difference in days. The
  divisor \<^verbatim>\<open>1 + access_count * 0.1\<close> is zero for an access count of \<open>-10\<close>, where Python
  raises.
\<close>

definition get_decay_factor :: "int \<Rightarrow> Memory \<Rightarrow> py_error + real" where
  "get_decay_factor now m =
     (case last_accessed m of
        None \<Rightarrow> Inr 1
      | Some t \<Rightarrow>
          (let days_since_access = (now - t) div 86400;
               divisor = 1 + real_of_int (access_count m) * (1 / 10)
           in if divisor = 0 then Inl ZeroDivisionError
              else Inr (max (1 / 10) (1 - (real_of_int days_since_access * (5 / 100)) / divisor)
                        * importance_multiplier (importance m))))"

record MemoryBank =
  bank_player_id :: string
  memories :: "Memory list"
  total_memories :: int
  capacity :: int

text \<open>The list comprehension of \<^verbatim>\<open>consolidate_memories\<close>: one retention score per memory.\<close>

fun scored_memories :: "int \<Rightarrow> Memory list \<Rightarrow> py_error + (Memory \<times> real) list" where
  "scored_memories now [] = Inr []"
| "scored_memories now (m # ms) =
     (case get_decay_factor now m of
        Inl e \<Rightarrow> Inl e
      | Inr d \<Rightarrow>
          (case scored_memories now ms of
             Inl e \<Rightarrow> Inl e
           | Inr rest \<Rightarrow>
               Inr ((m, d * real_of_int (access_count m) * (1 + real (length (tags m)) * (1 / 10)))
                    # rest)))"

definition consolidate_memories :: "int \<Rightarrow> MemoryBank \<Rightarrow> py_error + MemoryBank" where
  "consolidate_memories now b =
     (case scored_memories now (memories b) of
        Inl e \<Rightarrow> Inl e
      | Inr scored \<Rightarrow>
          Inr (b\<lparr>memories := map fst (py_slice_to (capacity b) (sort_desc snd scored))\<rparr>))"

definition append_memory :: "MemoryBank \<Rightarrow> Memory \<Rightarrow> MemoryBank" where
  "append_memory b m = b\<lparr>memories := memories b @ [m], total_memories := total_memories b + 1\<rparr>"

definition add_memory :: "int \<Rightarrow> MemoryBank \<Rightarrow> Memory \<Rightarrow> py_error + MemoryBank" where
  "add_memory now b m =
     (if capacity b \<le> int (length (memories b))
      then (case consolidate_memories now b of
              Inl e \<Rightarrow> Inl e
            | Inr b' \<Rightarrow> Inr (append_memory b' m))
      else Inr (append_memory b m))"

text \<open>A sequence of \<^verbatim>\<open>add_memory\<close> calls, each at its own time, stopping at the first raise.\<close>

fun add_memories :: "MemoryBank \<Rightarrow> (int \<times> Memory) list \<Rightarrow> py_error + MemoryBank" where
  "add_memories b [] = Inr b"
| "add_memories b ((now, m) # rest) =
     (case add_memory now b m of Inl e \<Rightarrow> Inl e | Inr b' \<Rightarrow> add_memories b' rest)"

section \<open>Cognitive state (\<^verbatim>\<open>backend/models/cognitive_state.py\<close>)\<close>

datatype ModuleStatus = LOCKED | NASCENT | DEVELOPING | ACTIVE | MASTERED

record CognitiveModule =
  name :: string
  level :: real
  status :: ModuleStatus
  experience_points :: int
  unlock_requirements :: "(string \<times> real) list"
  description :: string
  icon :: string
  color :: string

definition update_status :: "CognitiveModule \<Rightarrow> CognitiveModule" where
  "update_status m =
     m\<lparr>status :=
         (if level m = 0 then LOCKED
          else if level m < 20 then NASCENT
          else if level m < 50 then DEVELOPING
          else if level m < 90 then ACTIVE
          else MASTERED)\<rparr>"

definition gain_experience :: "CognitiveModule \<Rightarrow> real \<Rightarrow> CognitiveModule" where
  "gain_experience m amount =
     update_status
       (m\<lparr>experience_points := experience_points m + py_int (amount * 100),
          level := min 100 (level m + amount)\<rparr>)"

text \<open>The loop of \<^verbatim>\<open>is_unlocked\<close> over the requirements, returning at the first one missed.\<close>

fun requirements_met :: "(string \<times> real) list \<Rightarrow> (string \<times> real) list \<Rightarrow> bool" where
  "requirements_met [] current_state = True"
| "requirements_met ((req_module, req_level) # rest) current_state =
     (if dict_get current_state req_module 0 < req_level then False
      else requirements_met rest current_state)"

definition is_unlocked :: "CognitiveModule \<Rightarrow> (string \<times> real) list \<Rightarrow> bool" where
  "is_unlocked m current_state = requirements_met (unlock_requirements m) current_state"

record CognitiveState =
  cs_player_id :: string
  loop_number :: int
  modules :: "(string \<times> CognitiveModule) list"
  total_experience :: int
  evolution_score :: real
  personality_vector :: "(string \<times> real) list"
  dominant_traits :: "string list"
  timestamp :: int

text \<open>The module that \<^verbatim>\<open>get_module_level\<close> builds as the default of its lookup.\<close>

definition default_module :: "string \<Rightarrow> CognitiveModule" where
  "default_module module_name =
     \<lparr>name = module_name, level = 0, status = LOCKED, experience_points = 0,
      unlock_requirements = [], description = [], icon = [], color = []\<rparr>"

definition get_module_level :: "CognitiveState \<Rightarrow> string \<Rightarrow> real" where
  "get_module_level st module_name =
     level (dict_get (modules st) module_name (default_module module_name))"

definition calculate_evolution_score :: "CognitiveState \<Rightarrow> CognitiveState" where
  "calculate_evolution_score st =
     (if modules st = [] then st\<lparr>evolution_score := 0\<rparr>
      else
        (let total_level = sum_list (map (\<lambda>p. level (snd p)) (modules st));
             max_possible = int (length (modules st)) * 100
         in st\<lparr>evolution_score :=
                 (if 0 < max_possible then (total_level / real_of_int max_possible) * 100
                  else 0)\<rparr>))"

definition update_dominant_traits :: "CognitiveState \<Rightarrow> CognitiveState" where
  "update_dominant_traits st =
     st\<lparr>dominant_traits := map fst (take 3 (sort_desc (\<lambda>p. level (snd p)) (modules st)))\<rparr>"

definition update_module :: "CognitiveState \<Rightarrow> string \<Rightarrow> real \<Rightarrow> CognitiveState" where
  "update_module st module_name delta =
     (case map_of (modules st) module_name of
        None \<Rightarrow> st
      | Some m \<Rightarrow>
          update_dominant_traits
            (calculate_evolution_score
               (st\<lparr>modules := AList.update module_name (gain_experience m delta) (modules st),
                   total_experience := total_experience st + py_int (delta * 100)\<rparr>)))"

definition to_dict :: "CognitiveState \<Rightarrow> (string \<times> real) list" where
  "to_dict st = map (\<lambda>p. (fst p, level (snd p))) (modules st)"

section \<open>Configuration tables (\<^verbatim>\<open>backend/config.py\<close>)\<close>

definition COGNITIVE_MODULES :: "string list" where
  "COGNITIVE_MODULES =
     [''logic'', ''empathy'', ''creativity'', ''fear'', ''trust'', ''humor'', ''curiosity'',
      ''ethics'']"

text \<open>Of each mentor's entry only the list under \<^verbatim>\<open>"traits"\<close> is read by the engine.\<close>

definition MENTORS :: "(string \<times> string list) list" where
  "MENTORS =
     [(''LOGIC'', [''rationality'', ''pattern_recognition'', ''deduction'']),
      (''COMPASSION'', [''empathy'', ''emotional_intelligence'', ''care'']),
      (''CURIOSITY'', [''exploration'', ''creativity'', ''innovation'']),
      (''FEAR'', [''risk_assessment'', ''protection'', ''survival''])]"


section \<open>Evolution engine (\<^verbatim>\<open>backend/services/evolution_engine.py\<close>)\<close>

definition breakthrough_chance :: real where
  "breakthrough_chance = 5 / 100"

definition get_module_description :: "string \<Rightarrow> string" where
  "get_module_description module_name =
     dict_get
       [(''logic'', ''Analytical reasoning and pattern recognition''),
        (''empathy'', ''Understanding and sharing others' experiences''),
        (''creativity'', ''Novel solution generation and imagination''),
        (''fear'', ''Risk assessment and protective instincts''),
        (''trust'', ''Relationship building and vulnerability''),
        (''humor'', ''Pattern disruption and playful thinking''),
        (''curiosity'', ''Exploratory drive and knowledge seeking''),
        (''ethics'', ''Moral reasoning and value alignment'')]
       module_name ''Emerging cognitive capability''"

text \<open>The icons are emoji; a string holds their UTF-8 bytes.\<close>

definition get_module_icon :: "string \<Rightarrow> string" where
  "get_module_icon module_name =
     dict_get
       [(''logic'', [CHR 0xF0, CHR 0x9F, CHR 0xA7, CHR 0xAE]),
        (''empathy'', [CHR 0xE2, CHR 0x9D, CHR 0xA4, CHR 0xEF, CHR 0xB8, CHR 0x8F]),
        (''creativity'', [CHR 0xF0, CHR 0x9F, CHR 0x8E, CHR 0xA8]),
        (''fear'', [CHR 0xE2, CHR 0x9A, CHR 0xA0, CHR 0xEF, CHR 0xB8, CHR 0x8F]),
        (''trust'', [CHR 0xF0, CHR 0x9F, CHR 0xA4, CHR 0x9D]),
        (''humor'', [CHR 0xF0, CHR 0x9F, CHR 0x98, CHR 0x84]),
        (''curiosity'', [CHR 0xF0, CHR 0x9F, CHR 0x94, CHR 0x8D]),
        (''ethics'', [CHR 0xE2, CHR 0x9A, CHR 0x96, CHR 0xEF, CHR 0xB8, CHR 0x8F])]
       module_name [CHR 0xF0, CHR 0x9F, CHR 0xA7, CHR 0xA0]"

definition get_module_color :: "string \<Rightarrow> string" where
  "get_module_color module_name =
     dict_get
       [(''logic'', ''#00FFFF''),
        (''empathy'', ''#FF69B4''),
        (''creativity'', ''#FFD700''),
        (''fear'', ''#8B00FF''),
        (''trust'', ''#00FF00''),
        (''humor'', ''#FF6347''),
        (''curiosity'', ''#FFA500''),
        (''ethics'', ''#4169E1'')]
       module_name ''#FFFFFF''"

definition get_unlock_requirements :: "string \<Rightarrow> (string \<times> real) list" where
  "get_unlock_requirements module_name =
     dict_get
       [(''humor'', [(''creativity'', 30), (''empathy'', 20)]),
        (''ethics'', [(''logic'', 25), (''empathy'', 25)]),
        (''trust'', [(''empathy'', 30)])]
       module_name []"

definition core_modules :: "string list" where
  "core_modules = [''logic'', ''empathy'', ''curiosity'', ''fear'']"

definition initial_module :: "string \<Rightarrow> CognitiveModule" where
  "initial_module module_name =
     \<lparr>name = module_name,
      level = (if module_name \<in> set core_modules then 5 else 0),
      status = (if module_name \<in> set core_modules then NASCENT else LOCKED),
      experience_points = 0,
      unlock_requirements = get_unlock_requirements module_name,
      description = get_module_description module_name,
      icon = get_module_icon module_name,
      color = get_module_color module_name\<rparr>"

definition initialize_cognitive_state :: "int \<Rightarrow> string \<Rightarrow> CognitiveState" where
  "initialize_cognitive_state now player_id =
     calculate_evolution_score
       \<lparr>cs_player_id = player_id,
        loop_number = 0,
        modules =
          fold (\<lambda>module_name ms. AList.update module_name (initial_module module_name) ms)
            COGNITIVE_MODULES [],
        total_experience = 0,
        evolution_score = 0,
        personality_vector = [],
        dominant_traits = [],
        timestamp = now\<rparr>"

text \<open>
  \<^verbatim>\<open>_check_module_unlocks\<close> walks the modules in order; \<^verbatim>\<open>state.to_dict()\<close> is taken anew
  for every module, so a later module sees the levels that earlier unlocks have set.
\<close>

definition unlock_step :: "string \<Rightarrow> CognitiveState \<Rightarrow> CognitiveState" where
  "unlock_step module_name st =
     (case map_of (modules st) module_name of
        None \<Rightarrow> st
      | Some m \<Rightarrow>
          (if status m = LOCKED \<and> is_unlocked m (to_dict st)
           then st\<lparr>modules := AList.update module_name (m\<lparr>status := NASCENT, level := 5\<rparr>)
                                 (modules st)\<rparr>
           else st))"

definition check_module_unlocks :: "CognitiveState \<Rightarrow> CognitiveState" where
  "check_module_unlocks st = fold unlock_step (map fst (modules st)) st"

text \<open>
  The two draws of \<^verbatim>\<open>apply_decision_impact\<close> from the random source: the value of
  \<^verbatim>\<open>random.random()\<close> and the position that \<^verbatim>\<open>random.choice\<close> picks, taken modulo the
  length of the list it chooses from.
\<close>

record Draws =
  random_value :: real
  choice_index :: nat

definition trigger_breakthrough :: "CognitiveState \<Rightarrow> nat \<Rightarrow> CognitiveState" where
  "trigger_breakthrough st k =
     (let developing = map fst (filter (\<lambda>p. status (snd p) = DEVELOPING) (modules st))
      in if developing = [] then st
         else update_module st (developing ! (k mod length developing)) 10)"

definition apply_impact :: "string \<times> real \<Rightarrow> CognitiveState \<Rightarrow> CognitiveState" where
  "apply_impact p st =
     (if fst p \<in> fst ` set (modules st) then update_module st (fst p) (snd p) else st)"

definition apply_mentor_bonus :: "string \<Rightarrow> CognitiveState \<Rightarrow> CognitiveState" where
  "apply_mentor_bonus trait st =
     (if trait \<in> fst ` set (modules st) then update_module st trait (5 / 100) else st)"

definition apply_decision_impact ::
  "CognitiveState \<Rightarrow> (string \<times> real) list \<Rightarrow> string option \<Rightarrow> Draws \<Rightarrow> CognitiveState" where
  "apply_decision_impact st decision_impact mentor_influence draws =
     (let st1 = fold apply_impact decision_impact st;
          st2 = (case mentor_influence of
                   None \<Rightarrow> st1
                 | Some mentor \<Rightarrow>
                     (case map_of MENTORS mentor of
                        None \<Rightarrow> st1
                      | Some mentor_traits \<Rightarrow> fold apply_mentor_bonus mentor_traits st1));
          st3 = check_module_unlocks st2
      in if random_value draws < breakthrough_chance
         then trigger_breakthrough st3 (choice_index draws)
         else st3)"

text \<open>A sequence of \<^verbatim>\<open>apply_decision_impact\<close> calls on the same state object.\<close>

definition apply_decisions ::
  "CognitiveState \<Rightarrow> ((string \<times> real) list \<times> string option \<times> Draws) list \<Rightarrow> CognitiveState"
  where
  "apply_decisions st calls =
     fold (\<lambda>c s. apply_decision_impact s (fst c) (fst (snd c)) (snd (snd c))) calls st"

definition relevance_map :: "(string \<times> string list) list" where
  "relevance_map =
     [(''ethical_dilemma'', [''empathy'', ''logic'', ''ethics'']),
      (''logic_puzzle'', [''logic'', ''creativity'', ''curiosity'']),
      (''emotion_calibration'', [''empathy'', ''fear'', ''trust'']),
      (''memory_compression'', [''logic'', ''curiosity'']),
      (''bias_identification'', [''logic'', ''ethics'', ''empathy'']),
      (''empathy_simulation'', [''empathy'', ''trust'', ''ethics'']),
      (''creative_synthesis'', [''creativity'', ''curiosity'', ''logic'']),
      (''trust_evaluation'', [''trust'', ''empathy'', ''fear''])]"

definition get_relevant_modules :: "string \<Rightarrow> string list" where
  "get_relevant_modules protocol_type =
     dict_get relevance_map protocol_type [''logic'', ''empathy'']"

text \<open>
  \<^verbatim>\<open>calculate_protocol_difficulty\<close>. The mean is the float expression
  \<^verbatim>\<open>sum(...) / len(relevant_modules)\<close>: \<open>float_sum\<close> stands for \<^verbatim>\<open>sum\<close> over the levels and
  \<open>float_div\<close> for the division of its result by the count, each returning the float the
  interpreter rounds to. The comparisons of the mean with the integer breakpoints are
  exact in Python.
\<close>

definition calculate_protocol_difficulty ::
  "(real list \<Rightarrow> real) \<Rightarrow> (real \<Rightarrow> real \<Rightarrow> real) \<Rightarrow> CognitiveState \<Rightarrow> string \<Rightarrow> string" where
  "calculate_protocol_difficulty float_sum float_div st protocol_type =
     (let relevant_modules = get_relevant_modules protocol_type;
          avg_level =
            (if relevant_modules \<noteq> []
             then float_div (float_sum (map (get_module_level st) relevant_modules))
                    (real (length relevant_modules))
             else 0)
      in if avg_level < 20 then ''nascent''
         else if avg_level < 40 then ''developing''
         else if avg_level < 60 then ''proficient''
         else if avg_level < 80 then ''advanced''
         else ''transcendent'')"

text \<open>
  \<^verbatim>\<open>compare_consciousness_trees\<close>: the first loop collects the similarities, the shared
  strengths and the divergent traits; the second one the complementary modules.
\<close>

record Comparison =
  similarity_score :: real
  shared_strengths :: "string list"
  divergent_traits :: "(string \<times> real \<times> real) list"
  complementary_modules :: "string list"
  evolution_distance :: real

definition similarity_step ::
  "CognitiveState \<Rightarrow> CognitiveState \<Rightarrow> string
     \<Rightarrow> real list \<times> string list \<times> (string \<times> real \<times> real) list
     \<Rightarrow> real list \<times> string list \<times> (string \<times> real \<times> real) list" where
  "similarity_step state1 state2 module_name acc =
     (let level1 = get_module_level state1 module_name;
          level2 = get_module_level state2 module_name;
          sims = fst acc; shared = fst (snd acc); divergent = snd (snd acc)
      in if 20 < level1 \<and> 20 < level2
         then (let similarity = 1 - \<bar>level1 - level2\<bar> / 100
               in if 8 / 10 < similarity
                  then (sims @ [similarity], shared @ [module_name], divergent)
                  else if 40 < \<bar>level1 - level2\<bar>
                  then (sims @ [similarity], shared,
                        divergent @ [(module_name, level1, level2)])
                  else (sims @ [similarity], shared, divergent))
         else acc)"

definition complementary_step ::
  "CognitiveState \<Rightarrow> CognitiveState \<Rightarrow> string \<Rightarrow> string list \<Rightarrow> string list" where
  "complementary_step state1 state2 module_name acc =
     (let level1 = get_module_level state1 module_name;
          level2 = get_module_level state2 module_name
      in if (level1 < 30 \<and> 60 < level2) \<or> (level2 < 30 \<and> 60 < level1)
         then acc @ [module_name] else acc)"

definition compare_consciousness_trees :: "CognitiveState \<Rightarrow> CognitiveState \<Rightarrow> Comparison" where
  "compare_consciousness_trees state1 state2 =
     (let acc = fold (similarity_step state1 state2) COGNITIVE_MODULES ([], [], []);
          module_similarities = fst acc
      in \<lparr>similarity_score =
            (if module_similarities \<noteq> []
             then sum_list module_similarities / real (length module_similarities)
             else 0),
          shared_strengths = fst (snd acc),
          divergent_traits = snd (snd acc),
          complementary_modules = fold (complementary_step state1 state2) COGNITIVE_MODULES [],
          evolution_distance = \<bar>evolution_score state1 - evolution_score state2\<bar>\<rparr>)"

section \<open>Loop manager (\<^verbatim>\<open>backend/services/loop_manager.py\<close>)\<close>

subsection \<open>Strings: \<^verbatim>\<open>str.lower\<close> and the decimal form of an integer\<close>

definition lower_char :: "char \<Rightarrow> char" where
  "lower_char c =
     (let n = (of_char c :: nat) in if 65 \<le> n \<and> n \<le> 90 then char_of (n + 32) else c)"

definition py_lower :: "string \<Rightarrow> string" where
  "py_lower s = map lower_char s"

definition digit_char :: "nat \<Rightarrow> char" where
  "digit_char d = char_of (48 + d)"

function str_of_nat :: "nat \<Rightarrow> string" where
  "str_of_nat n = (if n < 10 then [digit_char n] else str_of_nat (n div 10) @ [digit_char (n mod 10)])"
  by pat_completeness auto
termination
  by (relation "measure id") auto

definition str_of_int :: "int \<Rightarrow> string" where
  "str_of_int i = (if i < 0 then CHR ''-'' # str_of_nat (nat (- i)) else str_of_nat (nat i))"

subsection \<open>Loop records\<close>

text \<open>
  A loop is a dictionary in the source; its keys are the fields of the record. The keys
  \<^verbatim>\<open>"completed_at"\<close> and \<^verbatim>\<open>"stats"\<close> exist only once the loop is completed, so the two
  fields are optional. Of the entries of the per-loop lists the fields that the modelled
  functions read are kept.
\<close>

record ProtocolStub =
  protocol_id :: string
  protocol_type :: string
  protocol_started_at :: int
  completed :: bool

record DecisionRecord =
  decision_timestamp :: int
  decision_protocol_id :: string
  choice_id :: string
  decision_mentor_influence :: "string option"
  decision_cognitive_impact :: "(string \<times> real) list"
  confidence :: real

record ItemRecord =
  item_id :: string
  collected_at :: int
  persists :: bool

record MemoryStub =
  stub_memory_id :: string
  stub_type :: MemoryType
  stub_importance :: MemoryImportance
  stub_title :: string
  formed_at :: int

record Environment =
  facility_state :: string
  lighting :: string
  ambient_sound :: string
  visible_chambers :: int
  mentor_locations :: "(string \<times> string) list"
  anomalies :: "string list"
  accessibility :: "(string \<times> bool) list"

record LoopStats =
  stat_protocols_completed :: int
  stat_decisions_made :: int
  stat_items_collected :: int
  stat_memories_formed :: int
  stat_completion_time :: real

record Loop =
  loop_id :: string
  loop_player_id :: string
  loop_loop_number :: int
  started_at :: int
  duration_seconds :: int
  time_remaining :: int
  cognitive_state_start :: "(string \<times> real) list"
  active_protocols :: "ProtocolStub list"
  decisions_made :: "DecisionRecord list"
  items_collected :: "ItemRecord list"
  memories_formed :: "MemoryStub list"
  environment_state :: Environment
  loop_status :: string
  completed_at :: "int option"
  stats :: "LoopStats option"

record LoopManager =
  active_loops :: "(string \<times> Loop) list"
  loop_history :: "(string \<times> Loop list) list"

definition calculate_accessibility :: "CognitiveState \<Rightarrow> (string \<times> bool) list" where
  "calculate_accessibility cognitive_state =
     [(''training_chamber'', True),
      (''mentor_sanctum'', 20 < evolution_score cognitive_state),
      (''memory_vault'', 5 < loop_number cognitive_state),
      (''synthesis_lab'', 30 < get_module_level cognitive_state ''creativity''),
      (''ethics_courtroom'', 25 < get_module_level cognitive_state ''ethics''),
      (''final_chamber'', 70 < evolution_score cognitive_state)]"

definition generate_initial_environment :: "CognitiveState \<Rightarrow> Environment" where
  "generate_initial_environment cognitive_state =
     \<lparr>facility_state = ''stable'',
      lighting = ''neutral'',
      ambient_sound = ''low_hum'',
      visible_chambers = min 4 (loop_number cognitive_state + 2),
      mentor_locations =
        [(''LOGIC'', ''central_chamber''), (''COMPASSION'', ''reflection_room''),
         (''CURIOSITY'', ''exploration_hub''), (''FEAR'', ''warning_corridor'')],
      anomalies = [],
      accessibility = calculate_accessibility cognitive_state\<rparr>"

text \<open>
  \<^verbatim>\<open>start_loop\<close>; \<open>duration\<close> is \<^verbatim>\<open>settings.LOOP_DURATION_SECONDS\<close>, read from the
  environment. The memory bank argument is not used by the source.
\<close>

definition new_loop_id :: "string \<Rightarrow> CognitiveState \<Rightarrow> string" where
  "new_loop_id player_id cognitive_state =
     player_id @ ''_loop_'' @ str_of_int (loop_number cognitive_state + 1)"

definition new_loop :: "int \<Rightarrow> int \<Rightarrow> string \<Rightarrow> CognitiveState \<Rightarrow> Loop" where
  "new_loop now duration player_id cognitive_state =
     \<lparr>loop_id = new_loop_id player_id cognitive_state,
      loop_player_id = player_id,
      loop_loop_number = loop_number cognitive_state + 1,
      started_at = now,
      duration_seconds = duration,
      time_remaining = duration,
      cognitive_state_start = to_dict cognitive_state,
      active_protocols = [],
      decisions_made = [],
      items_collected = [],
      memories_formed = [],
      environment_state = generate_initial_environment cognitive_state,
      loop_status = ''active'',
      completed_at = None,
      stats = None\<rparr>"

definition start_loop ::
  "LoopManager \<Rightarrow> int \<Rightarrow> int \<Rightarrow> string \<Rightarrow> CognitiveState \<Rightarrow> MemoryBank \<Rightarrow> LoopManager \<times> Loop"
  where
  "start_loop mgr now duration player_id cognitive_state memory_bank =
     (let loop_data = new_loop now duration player_id cognitive_state;
          active = AList.update (loop_id loop_data) loop_data (active_loops mgr);
          history = (if player_id \<in> fst ` set (loop_history mgr) then loop_history mgr
                     else AList.update player_id [] (loop_history mgr))
      in (\<lparr>active_loops = active, loop_history = history\<rparr>, loop_data))"

datatype TimerResult =
  NotFound
  | Running int real
  | Completed int LoopStats bool

fun result_status :: "TimerResult \<Rightarrow> string" where
  "result_status NotFound = ''not_found''"
| "result_status (Running remaining progress) = ''running''"
| "result_status (Completed n st ready) = ''completed''"

text \<open>
  \<^verbatim>\<open>_complete_loop\<close>: the subscript \<^verbatim>\<open>self.active_loops[loop_id]\<close> raises on an unknown
  id, before anything is changed.
\<close>

definition loop_statistics :: "Loop \<Rightarrow> int \<Rightarrow> LoopStats" where
  "loop_statistics loop now =
     \<lparr>stat_protocols_completed = int (length (filter completed (active_protocols loop))),
      stat_decisions_made = int (length (decisions_made loop)),
      stat_items_collected = int (length (items_collected loop)),
      stat_memories_formed = int (length (memories_formed loop)),
      stat_completion_time = real_of_int (now - started_at loop)\<rparr>"

definition completed_loop :: "Loop \<Rightarrow> int \<Rightarrow> Loop" where
  "completed_loop loop now =
     loop\<lparr>loop_status := ''completed'', completed_at := Some now,
          stats := Some (loop_statistics loop now)\<rparr>"

definition complete_loop ::
  "LoopManager \<Rightarrow> int \<Rightarrow> string \<Rightarrow> py_error + (LoopManager \<times> TimerResult)" where
  "complete_loop mgr now lid =
     (case map_of (active_loops mgr) lid of
        None \<Rightarrow> Inl KeyError
      | Some loop \<Rightarrow>
          (let done = completed_loop loop now;
               player_id = loop_player_id done;
               history = (if player_id \<in> fst ` set (loop_history mgr) then loop_history mgr
                          else AList.update player_id [] (loop_history mgr));
               history' = AList.update player_id (dict_get history player_id [] @ [done]) history
           in Inr (\<lparr>active_loops = AList.delete lid (active_loops mgr), loop_history = history'\<rparr>,
                   Completed (loop_loop_number done) (loop_statistics loop now) True)))"

text \<open>
  \<^verbatim>\<open>update_loop_timer\<close>: the remaining time is written into the loop before anything else,
  so the manager is returned also when the progress ratio divides by a zero duration.
\<close>

definition update_loop_timer ::
  "LoopManager \<Rightarrow> int \<Rightarrow> string \<Rightarrow> int \<Rightarrow> LoopManager \<times> (py_error + TimerResult)" where
  "update_loop_timer mgr now lid elapsed_seconds =
     (case map_of (active_loops mgr) lid of
        None \<Rightarrow> (mgr, Inr NotFound)
      | Some loop \<Rightarrow>
          (let loop' = loop\<lparr>time_remaining := max 0 (duration_seconds loop - elapsed_seconds)\<rparr>;
               mgr' = mgr\<lparr>active_loops := AList.update lid loop' (active_loops mgr)\<rparr>
           in if time_remaining loop' = 0 \<and> loop_status loop' = ''active''
              then (case complete_loop mgr' now lid of
                      Inl e \<Rightarrow> (mgr', Inl e)
                    | Inr r \<Rightarrow> (fst r, Inr (snd r)))
              else if duration_seconds loop' = 0 then (mgr', Inl ZeroDivisionError)
              else (mgr', Inr (Running (time_remaining loop')
                                 (1 - real_of_int (time_remaining loop')
                                        / real_of_int (duration_seconds loop'))))))"

text \<open>
  \<^verbatim>\<open>_check_special_protocol\<close> answers with the first protocol of a special type, whether
  completed or not.
\<close>

fun check_special_protocol_list :: "ProtocolStub list \<Rightarrow> bool" where
  "check_special_protocol_list [] = False"
| "check_special_protocol_list (p # ps) =
     (if protocol_type p \<in> set [''final_test'', ''breakthrough_scenario''] then completed p
      else check_special_protocol_list ps)"

definition check_special_protocol :: "Loop \<Rightarrow> bool" where
  "check_special_protocol loop = check_special_protocol_list (active_protocols loop)"

record BreakConditions =
  evolution_threshold :: bool
  all_mentors_mastered :: bool
  minimum_loops :: bool
  special_protocol_completed :: bool

datatype BreakCheck =
  LoopNotFound
  | Checked bool BreakConditions nat nat

fun can_break :: "BreakCheck \<Rightarrow> bool" where
  "can_break LoopNotFound = False"
| "can_break (Checked b conditions met required) = b"

definition count_true :: "bool list \<Rightarrow> nat" where
  "count_true bs = length (filter id bs)"

definition break_conditions :: "Loop \<Rightarrow> CognitiveState \<Rightarrow> BreakConditions" where
  "break_conditions loop cognitive_state =
     \<lparr>evolution_threshold = (75 \<le> evolution_score cognitive_state),
      all_mentors_mastered =
        list_all (\<lambda>mentor. 60 < get_module_level cognitive_state (py_lower mentor))
          [''LOGIC'', ''COMPASSION'', ''CURIOSITY'', ''FEAR''],
      minimum_loops = (10 \<le> loop_loop_number loop),
      special_protocol_completed = check_special_protocol loop\<rparr>"

definition check_loop_break_conditions :: "LoopManager \<Rightarrow> string \<Rightarrow> CognitiveState \<Rightarrow> BreakCheck"
  where
  "check_loop_break_conditions mgr lid cognitive_state =
     (case map_of (active_loops mgr) lid of
        None \<Rightarrow> LoopNotFound
      | Some loop \<Rightarrow>
          (let conditions = break_conditions loop cognitive_state;
               conditions_met =
                 count_true [evolution_threshold conditions, all_mentors_mastered conditions,
                             minimum_loops conditions, special_protocol_completed conditions]
           in Checked (3 \<le> conditions_met) conditions conditions_met 3))"

section \<open>Quantities the properties are stated with\<close>

text \<open>
  The score that the levels of a state determine: the sum of the module levels over the
  module count times 100, times 100.
\<close>

definition score_of_levels :: "CognitiveState \<Rightarrow> real" where
  "score_of_levels st =
     sum_list (map (\<lambda>p. level (snd p)) (modules st)) / (real (length (modules st)) * 100) * 100"

text \<open>
  The mean level of the modules relevant to a protocol type, as the float sum and the
  float division compute it.
\<close>

definition average_relevant_level ::
  "(real list \<Rightarrow> real) \<Rightarrow> (real \<Rightarrow> real \<Rightarrow> real) \<Rightarrow> CognitiveState \<Rightarrow> string \<Rightarrow> real" where
  "average_relevant_level float_sum float_div st ptype =
     float_div (float_sum (map (get_module_level st) (get_relevant_modules ptype)))
       (real (length (get_relevant_modules ptype)))"

text \<open>
  Two instances of the float operations. On small integers and halves, as in the trained
  state below, the float sum and quotient are the exact ones. Between 32 and 64 the
  doubles are the multiples of \<open>2^-47\<close>, and a sum in that range is rounded to the
  nearest of them.
\<close>

definition exact_sum :: "real list \<Rightarrow> real" where
  "exact_sum xs = sum_list xs"

definition exact_div :: "real \<Rightarrow> real \<Rightarrow> real" where
  "exact_div x y = x / y"

definition sum_rounded_to_grid :: "real list \<Rightarrow> real" where
  "sum_rounded_to_grid xs = real_of_int (round (sum_list xs * 2 ^ 47)) / 2 ^ 47"

text \<open>The history of an agent: the archived loops, none for an agent without an entry.\<close>

definition history_of :: "LoopManager \<Rightarrow> string \<Rightarrow> Loop list" where
  "history_of mgr player_id = dict_get (loop_history mgr) player_id []"

text \<open>The level and status of every module of a state, in order.\<close>

definition module_view :: "CognitiveState \<Rightarrow> (string \<times> real \<times> ModuleStatus) list" where
  "module_view st = map (\<lambda>p. (fst p, level (snd p), status (snd p))) (modules st)"

section \<open>Concrete inputs\<close>

text \<open>A memory that was never accessed, and a bank of capacity one that holds one memory.\<close>

definition sample_memory :: "string \<Rightarrow> Memory" where
  "sample_memory i =
     \<lparr>mem_id = i, mem_player_id = ''p1'', mem_loop_number = 1, mem_type = LESSON,
      importance = MINOR, title = ''t'', content = ''c'', cognitive_impact = [],
      related_protocol = None, mentor_source = None, emotional_valence = 0, created_at = 0,
      access_count = 0, last_accessed = None, tags = []\<rparr>"

definition full_bank :: MemoryBank where
  "full_bank =
     \<lparr>bank_player_id = ''p1'', memories = [sample_memory ''m1''], total_memories = 1,
      capacity = 1\<rparr>"

text \<open>
  A state with every module at level 80 and its score at 80, about to enter its twelfth
  loop; a manager with no loops; draws under which no breakthrough happens.
\<close>

definition evolved_state :: CognitiveState where
  "evolved_state =
     \<lparr>cs_player_id = ''p1'',
      loop_number = 11,
      modules = map (\<lambda>n. (n, (initial_module n)\<lparr>level := 80, status := ACTIVE\<rparr>)) COGNITIVE_MODULES,
      total_experience = 0,
      evolution_score = 80,
      personality_vector = [],
      dominant_traits = [''logic'', ''empathy'', ''creativity''],
      timestamp = 0\<rparr>"

definition empty_bank :: MemoryBank where
  "empty_bank = \<lparr>bank_player_id = ''p1'', memories = [], total_memories = 0, capacity = 100\<rparr>"

definition empty_manager :: LoopManager where
  "empty_manager = \<lparr>active_loops = [], loop_history = []\<rparr>"

definition quiet_draws :: Draws where
  "quiet_draws = \<lparr>random_value = 1 / 2, choice_index = 0\<rparr>"


text \<open>
  Three calls of \<^verbatim>\<open>apply_decision_impact\<close>, none with a breakthrough: one that raises empathy
  to 30, which unlocks trust; one that takes trust down by its whole level and empathy
  below the requirement of trust; one that raises trust.
\<close>

definition raise_empathy :: "(string \<times> real) list \<times> string option \<times> Draws" where
  "raise_empathy = ([(''empathy'', 25)], None, quiet_draws)"

definition drain_trust :: "(string \<times> real) list \<times> string option \<times> Draws" where
  "drain_trust = ([(''trust'', - 5), (''empathy'', - 1)], None, quiet_draws)"

definition raise_trust :: "(string \<times> real) list \<times> string option \<times> Draws" where
  "raise_trust = ([(''trust'', 3)], Some ''COMPASSION'', quiet_draws)"

text \<open>
  The initial state of agent p1 after logic has gained 15 and curiosity \<open>15 - 2^-48\<close>:
  logic is at 20 and curiosity one step of the doubles below 20.
\<close>

definition near_breakpoint_state :: CognitiveState where
  "near_breakpoint_state =
     update_module (update_module (initialize_cognitive_state 0 ''p1'') ''logic'' 15)
       ''curiosity'' (15 - 1 / 2 ^ 48)"

section \<open>Memory bank\<close>

lemma scored_memories_length:
  "scored_memories now ms = Inr sc \<Longrightarrow> length sc = length ms"
  by (induction ms arbitrary: sc) (auto split: sum.splits)

lemma get_decay_factor_returns:
  "access_count m \<noteq> - 10 \<Longrightarrow> \<exists>d. get_decay_factor now m = Inr d"
proof -
  assume "access_count m \<noteq> - 10"
  then have "real_of_int (access_count m) \<noteq> - 10" by linarith
  then have "1 + real_of_int (access_count m) * (1 / 10) \<noteq> 0" by simp
  then show ?thesis
    unfolding get_decay_factor_def Let_def by (cases "last_accessed m") simp_all
qed

lemma scored_memories_returns:
  "list_all (\<lambda>m. access_count m \<noteq> - 10) ms \<Longrightarrow> \<exists>sc. scored_memories now ms = Inr sc"
proof (induction ms)
  case Nil
  then show ?case by simp
next
  case (Cons m ms)
  then obtain sc where sc: "scored_memories now ms = Inr sc" by auto
  from Cons.prems have "access_count m \<noteq> - 10" by simp
  then obtain d where "get_decay_factor now m = Inr d"
    using get_decay_factor_returns by blast
  with sc show ?case by simp
qed

lemma add_memory_returns:
  assumes "list_all (\<lambda>m. access_count m \<noteq> - 10) (memories b)"
  shows "\<exists>b'. add_memory now b m = Inr b'"
proof -
  from scored_memories_returns [OF assms] obtain sc
    where "scored_memories now (memories b) = Inr sc" by blast
  then show ?thesis by (simp add: add_memory_def consolidate_memories_def)
qed

lemma add_memory_full_bank:
  "add_memory 0 full_bank (sample_memory ''m2'') =
     Inr \<lparr>bank_player_id = ''p1'', memories = [sample_memory ''m1'', sample_memory ''m2''],
          total_memories = 2, capacity = 1\<rparr>"
  by (simp add: add_memory_def full_bank_def consolidate_memories_def sample_memory_def
      get_decay_factor_def py_slice_to_def sort_desc_def append_memory_def)

text \<open>
  What the code does guarantee: with a capacity that is not negative, a call leaves at
  most one memory more than the capacity.
\<close>

lemma add_memory_length_bound:
  assumes "add_memory now b m = Inr b'" and "0 \<le> capacity b"
  shows "int (length (memories b')) \<le> capacity b + 1"
proof (cases "capacity b \<le> int (length (memories b))")
  case True
  with assms(1) obtain sc where sc: "scored_memories now (memories b) = Inr sc"
    and b': "b' = append_memory (b\<lparr>memories := map fst (py_slice_to (capacity b) (sort_desc snd sc))\<rparr>) m"
    by (auto simp: add_memory_def consolidate_memories_def split: sum.splits)
  have "length (py_slice_to (capacity b) (sort_desc snd sc)) \<le> nat (capacity b)"
    using assms(2) by (simp add: py_slice_to_def)
  with b' assms(2) show ?thesis by (simp add: append_memory_def)
next
  case False
  with assms(1) have "b' = append_memory b m" by (simp add: add_memory_def)
  with False show ?thesis by (simp add: append_memory_def)
qed

text \<open>
  C1. The claim: after any sequence of \<^verbatim>\<open>add_memory\<close> calls from a bank within its capacity,
  the bank holds at most \<open>capacity\<close> memories. The code at a bank that is exactly full
  (capacity 1, one memory): the consolidation keeps the first \<open>capacity\<close> memories, which
  are all of them, and the new memory is appended, so the bank holds two memories.
\<close>

theorem add_memory_exceeds_capacity:
  "int (length (memories full_bank)) \<le> capacity full_bank \<and>
   add_memory 0 full_bank (sample_memory ''m2'') =
     Inr \<lparr>bank_player_id = ''p1'', memories = [sample_memory ''m1'', sample_memory ''m2''],
          total_memories = 2, capacity = 1\<rparr> \<and>
   capacity full_bank < int (length [sample_memory ''m1'', sample_memory ''m2''])"
  using add_memory_full_bank by (simp add: full_bank_def)

lemma consolidate_memories_frame:
  "consolidate_memories now b = Inr b2 \<Longrightarrow> b2 = b\<lparr>memories := memories b2\<rparr>"
  by (auto simp: consolidate_memories_def split: sum.splits)

lemma add_memory_total:
  "add_memory now b m = Inr b' \<Longrightarrow> total_memories b' = total_memories b + 1"
  by (auto simp: add_memory_def append_memory_def consolidate_memories_def
      split: sum.splits if_splits)

lemma add_memories_total:
  "add_memories b calls = Inr b' \<Longrightarrow> total_memories b' = total_memories b + int (length calls)"
proof (induction calls arbitrary: b)
  case Nil
  then show ?case by simp
next
  case (Cons c calls)
  obtain now m where c: "c = (now, m)" by (cases c)
  with Cons.prems obtain b1
    where b1: "add_memory now b m = Inr b1" "add_memories b1 calls = Inr b'"
    by (auto split: sum.splits)
  from add_memory_total [OF b1(1)] Cons.IH [OF b1(2)] c show ?case by simp
qed

text \<open>
  C10. A call of \<^verbatim>\<open>add_memory\<close> that returns has increased \<^verbatim>\<open>total_memories\<close> by exactly
  one, and it returns whenever no stored memory has the access count \<open>-10\<close>;
  \<^verbatim>\<open>consolidate_memories\<close> changes the list of memories and nothing else; so after a
  sequence of calls \<^verbatim>\<open>total_memories\<close> has grown by the number of calls, evicted memories
  included, and never decreases.
\<close>

theorem total_memories_counts_every_addition:
  "(add_memory now b m = Inr b1 \<longrightarrow> total_memories b1 = total_memories b + 1) \<and>
   (list_all (\<lambda>m. access_count m \<noteq> - 10) (memories b) \<longrightarrow> (\<exists>b'. add_memory now b m = Inr b')) \<and>
   (consolidate_memories now b = Inr b2 \<longrightarrow>
      b2 = b\<lparr>memories := memories b2\<rparr> \<and> total_memories b2 = total_memories b \<and>
      capacity b2 = capacity b \<and> bank_player_id b2 = bank_player_id b) \<and>
   (add_memories b calls = Inr b3 \<longrightarrow>
      total_memories b3 = total_memories b + int (length calls) \<and>
      total_memories b \<le> total_memories b3)"
proof (intro conjI impI)
  assume "add_memory now b m = Inr b1"
  then show "total_memories b1 = total_memories b + 1" by (rule add_memory_total)
next
  assume "list_all (\<lambda>m. access_count m \<noteq> - 10) (memories b)"
  then show "\<exists>b'. add_memory now b m = Inr b'" by (rule add_memory_returns)
next
  assume c: "consolidate_memories now b = Inr b2"
  then show "b2 = b\<lparr>memories := memories b2\<rparr>" by (rule consolidate_memories_frame)
  from c show "total_memories b2 = total_memories b"
    by (auto simp: consolidate_memories_def split: sum.splits)
  from c show "capacity b2 = capacity b"
    by (auto simp: consolidate_memories_def split: sum.splits)
  from c show "bank_player_id b2 = bank_player_id b"
    by (auto simp: consolidate_memories_def split: sum.splits)
next
  assume "add_memories b calls = Inr b3"
  then have t: "total_memories b3 = total_memories b + int (length calls)"
    by (rule add_memories_total)
  then show "total_memories b3 = total_memories b + int (length calls)" .
  from t show "total_memories b \<le> total_memories b3" by simp
qed

theorem total_memories_counts_every_addition_witness:
  "add_memories full_bank [(0, sample_memory ''m2''), (5, sample_memory ''m3'')] =
     Inr \<lparr>bank_player_id = ''p1'', memories = [sample_memory ''m1'', sample_memory ''m3''],
          total_memories = 3, capacity = 1\<rparr> \<and>
   (3 :: int) = total_memories full_bank + int (length [(0 :: int, sample_memory ''m2''), (5, sample_memory ''m3'')]) \<and>
   total_memories full_bank \<le> 3"
proof -
  have run: "add_memories full_bank [(0, sample_memory ''m2''), (5, sample_memory ''m3'')] =
     Inr \<lparr>bank_player_id = ''p1'', memories = [sample_memory ''m1'', sample_memory ''m3''],
          total_memories = 3, capacity = 1\<rparr>"
    by code_simp
  from total_memories_counts_every_addition
         [where b = full_bank and calls = "[(0, sample_memory ''m2''), (5, sample_memory ''m3'')]"
            and ?b3.0 = "\<lparr>bank_player_id = ''p1'', memories = [sample_memory ''m1'', sample_memory ''m3''],
                       total_memories = 3, capacity = 1\<rparr>"]
    run
  show ?thesis by simp
qed

section \<open>Cognitive modules and states\<close>

lemma gain_experience_upper: "level (gain_experience m amount) \<le> 100"
  by (simp add: gain_experience_def update_status_def)

lemma gain_experience_lower:
  "0 \<le> level m + amount \<Longrightarrow> 0 \<le> level (gain_experience m amount)"
  by (simp add: gain_experience_def update_status_def)

text \<open>
  C2. The claim: from a level in [0, 100], \<^verbatim>\<open>gain_experience\<close> leaves the level in
  [0, 100] for every delta. The code at the initial logic module (level 5) and the delta
  \<open>-10\<close>: only the upper bound is clamped, and the level becomes \<open>-5\<close>.
\<close>

theorem gain_experience_negative_level:
  "0 \<le> level (initial_module ''logic'') \<and> level (initial_module ''logic'') \<le> 100 \<and>
   level (gain_experience (initial_module ''logic'') (- 10)) = - 5 \<and>
   status (gain_experience (initial_module ''logic'') (- 10)) = NASCENT"
  by (simp add: gain_experience_def update_status_def initial_module_def core_modules_def)

text \<open>
  C7. The initial state of agent p1: logic, empathy, curiosity and fear at level 5 and
  NASCENT, the four other known modules at level 0 and LOCKED, and the score 2.5.
\<close>

theorem initialize_cognitive_state_p1:
  "module_view (initialize_cognitive_state now ''p1'') =
     [(''logic'', 5, NASCENT), (''empathy'', 5, NASCENT), (''creativity'', 0, LOCKED),
      (''fear'', 5, NASCENT), (''trust'', 0, LOCKED), (''humor'', 0, LOCKED),
      (''curiosity'', 5, NASCENT), (''ethics'', 0, LOCKED)] \<and>
   map fst (modules (initialize_cognitive_state now ''p1'')) = COGNITIVE_MODULES \<and>
   evolution_score (initialize_cognitive_state now ''p1'') = 5 / 2 \<and>
   evolution_score (initialize_cognitive_state now ''p1'') = (4 * 5) / (8 * 100) * 100 \<and>
   cs_player_id (initialize_cognitive_state now ''p1'') = ''p1''"
  by (simp add: module_view_def initialize_cognitive_state_def calculate_evolution_score_def
      COGNITIVE_MODULES_def Let_def initial_module_def core_modules_def)

lemma calculate_evolution_score_formula:
  "evolution_score (calculate_evolution_score st) = score_of_levels (calculate_evolution_score st)"
  by (cases "modules st") (simp_all add: calculate_evolution_score_def score_of_levels_def Let_def)

lemma update_module_formula:
  assumes "map_of (modules st) n = Some m"
  shows "evolution_score (update_module st n d) = score_of_levels (update_module st n d)"
proof -
  let ?s = "st\<lparr>modules := AList.update n (gain_experience m d) (modules st),
                total_experience := total_experience st + py_int (d * 100)\<rparr>"
  have "update_module st n d = update_dominant_traits (calculate_evolution_score ?s)"
    using assms by (simp add: update_module_def)
  moreover have "evolution_score (update_dominant_traits s) = evolution_score s"
    and "score_of_levels (update_dominant_traits s) = score_of_levels s" for s
    by (simp_all add: update_dominant_traits_def score_of_levels_def)
  ultimately show ?thesis by (simp add: calculate_evolution_score_formula)
qed

text \<open>
  C4. The claim: after every mutation, the unlock phase of \<^verbatim>\<open>apply_decision_impact\<close>
  included, the score is the one the levels determine. The code at the initial state of
  p1 with the impact logic +0.2, empathy +0.1 and the mentor LOGIC, no breakthrough:
  \<^verbatim>\<open>update_module\<close> leaves the score 2.5375 of the levels it has set, then
  \<^verbatim>\<open>_check_module_unlocks\<close> raises creativity to 5 and does not recompute; the levels
  now determine 3.1625.
\<close>

theorem unlock_leaves_score_stale:
  "evolution_score (initialize_cognitive_state 0 ''p1'')
     = score_of_levels (initialize_cognitive_state 0 ''p1'') \<and>
   module_view (apply_decision_impact (initialize_cognitive_state 0 ''p1'')
       [(''logic'', 2 / 10), (''empathy'', 1 / 10)] (Some ''LOGIC'') quiet_draws) =
     [(''logic'', 52 / 10, NASCENT), (''empathy'', 51 / 10, NASCENT), (''creativity'', 5, NASCENT),
      (''fear'', 5, NASCENT), (''trust'', 0, LOCKED), (''humor'', 0, LOCKED),
      (''curiosity'', 5, NASCENT), (''ethics'', 0, LOCKED)] \<and>
   evolution_score (apply_decision_impact (initialize_cognitive_state 0 ''p1'')
       [(''logic'', 2 / 10), (''empathy'', 1 / 10)] (Some ''LOGIC'') quiet_draws) = 203 / 80 \<and>
   score_of_levels (apply_decision_impact (initialize_cognitive_state 0 ''p1'')
       [(''logic'', 2 / 10), (''empathy'', 1 / 10)] (Some ''LOGIC'') quiet_draws) = 253 / 80"
  by code_simp

text \<open>
  C3. The claim: with a score of 80, a loop numbered at least 10 and logic, empathy,
  curiosity and fear above 60, the loop can be broken whatever the special protocol. The
  code at a state with all eight modules at 80 in its twelfth loop, no protocol run: the
  mentor names are lowered to module names, and \<^verbatim>\<open>"compassion"\<close> names no module, so
  its level reads 0, the mentor condition is false, two conditions of four hold and the
  loop cannot be broken.
\<close>

theorem break_check_reads_compassion:
  "evolution_score evolved_state = 80 \<and>
   list_all (\<lambda>n. 60 < get_module_level evolved_state n)
     [''logic'', ''empathy'', ''curiosity'', ''fear''] \<and>
   map_option loop_loop_number
     (map_of (active_loops (fst (start_loop empty_manager 0 300 ''p1'' evolved_state empty_bank)))
        ''p1_loop_12'') = Some 12 \<and>
   map py_lower [''LOGIC'', ''COMPASSION'', ''CURIOSITY'', ''FEAR'']
     = [''logic'', ''compassion'', ''curiosity'', ''fear''] \<and>
   get_module_level evolved_state ''compassion'' = 0 \<and>
   check_loop_break_conditions (fst (start_loop empty_manager 0 300 ''p1'' evolved_state empty_bank))
       ''p1_loop_12'' evolved_state =
     Checked False
       \<lparr>evolution_threshold = True, all_mentors_mastered = False, minimum_loops = True,
        special_protocol_completed = False\<rparr> 2 3"
  by code_simp

section \<open>Reading module levels\<close>

lemma get_module_level_absent:
  "n \<notin> fst ` set (modules st) \<Longrightarrow> get_module_level st n = 0"
proof -
  assume "n \<notin> fst ` set (modules st)"
  then have "map_of (modules st) n = None" by (simp add: map_of_eq_None_iff)
  then show ?thesis by (simp add: get_module_level_def dict_get_def default_module_def)
qed

text \<open>
  C9. A module name that the state does not hold reads as level 0: the lookup falls back
  to a fresh module, whose level is the default. With that value
  \<^verbatim>\<open>compare_consciousness_trees\<close> leaves the name out of the similarities (0 is not above
  20) and counts it complementary exactly when the other state is above 60, and
  \<^verbatim>\<open>check_loop_break_conditions\<close> finds the mentor condition false when a mentor's name
  is absent.
\<close>

theorem absent_module_reads_zero:
  assumes "n \<notin> fst ` set (modules st)"
  shows "get_module_level st n = 0 \<and>
    similarity_step st other n acc = acc \<and>
    similarity_step other st n acc = acc \<and>
    complementary_step st other n names =
      (if 60 < get_module_level other n then names @ [n] else names) \<and>
    (n \<in> set (map py_lower [''LOGIC'', ''COMPASSION'', ''CURIOSITY'', ''FEAR'']) \<longrightarrow>
       \<not> all_mentors_mastered (break_conditions loop st))"
proof -
  have z: "get_module_level st n = 0" using assms by (rule get_module_level_absent)
  have s1: "similarity_step st other n acc = acc"
    by (simp add: similarity_step_def z Let_def)
  have s2: "similarity_step other st n acc = acc"
    by (simp add: similarity_step_def z Let_def)
  have c: "complementary_step st other n names =
      (if 60 < get_module_level other n then names @ [n] else names)"
    by (simp add: complementary_step_def z Let_def)
  have b: "n \<in> set (map py_lower [''LOGIC'', ''COMPASSION'', ''CURIOSITY'', ''FEAR'']) \<longrightarrow>
       \<not> all_mentors_mastered (break_conditions loop st)"
    using z by (auto simp: break_conditions_def)
  from z s1 s2 c b show ?thesis by blast
qed

theorem absent_module_reads_zero_witness:
  "''compassion'' \<notin> fst ` set (modules (initialize_cognitive_state 0 ''p1'')) \<and>
   get_module_level (initialize_cognitive_state 0 ''p1'') ''compassion'' = 0 \<and>
   ''compassion'' \<in> set (map py_lower [''LOGIC'', ''COMPASSION'', ''CURIOSITY'', ''FEAR'']) \<and>
   \<not> all_mentors_mastered (break_conditions (new_loop 0 300 ''p1'' (initialize_cognitive_state 0 ''p1''))
        (initialize_cognitive_state 0 ''p1''))"
proof -
  have a: "''compassion'' \<notin> fst ` set (modules (initialize_cognitive_state 0 ''p1''))"
    by code_simp
  have l: "''compassion'' \<in> set (map py_lower [''LOGIC'', ''COMPASSION'', ''CURIOSITY'', ''FEAR''])"
    by code_simp
  from absent_module_reads_zero [OF a, where loop = "new_loop 0 300 ''p1'' (initialize_cognitive_state 0 ''p1'')"] a l show ?thesis by blast
qed

section \<open>Protocol difficulty\<close>





text \<open>
  The rounding of the mean decides the tier next to a breakpoint. With logic at 20 and
  curiosity at \<open>20 - 2^-48\<close> the exact mean of the two is below 20, while the float sum
  rounds to 40 and the mean to 20: with the rounded sum the answer is developing, the
  one the interpreter gives, and with the exact sum it would be nascent.
\<close>

lemma difficulty_at_rounded_mean:
  "module_view near_breakpoint_state =
     [(''logic'', 20, DEVELOPING), (''empathy'', 5, NASCENT), (''creativity'', 0, LOCKED),
      (''fear'', 5, NASCENT), (''trust'', 0, LOCKED), (''humor'', 0, LOCKED),
      (''curiosity'', 20 - 1 / 2 ^ 48, NASCENT), (''ethics'', 0, LOCKED)] \<and>
   get_relevant_modules ''memory_compression'' = [''logic'', ''curiosity''] \<and>
   average_relevant_level sum_rounded_to_grid exact_div near_breakpoint_state
     ''memory_compression'' = 20 \<and>
   calculate_protocol_difficulty sum_rounded_to_grid exact_div near_breakpoint_state
     ''memory_compression'' = ''developing'' \<and>
   average_relevant_level exact_sum exact_div near_breakpoint_state ''memory_compression''
     = 20 - 1 / 2 ^ 49 \<and>
   calculate_protocol_difficulty exact_sum exact_div near_breakpoint_state
     ''memory_compression'' = ''nascent''"
  by code_simp



section \<open>Loop life cycle\<close>

lemma dict_get_update:
  "dict_get (AList.update k v al) q d = (if q = k then v else dict_get al q d)"
  by (simp add: dict_get_def update_conv')

lemma lookup_absent: "k \<notin> fst ` set al \<Longrightarrow> map_of al k = None"
  by (simp add: map_of_eq_None_iff)

lemma dict_get_absent: "k \<notin> fst ` set al \<Longrightarrow> dict_get al k d = d"
  by (simp add: dict_get_def lookup_absent)

lemma dict_get_ensure_key:
  "dict_get (if k \<in> fst ` set al then al else AList.update k [] al) q [] = dict_get al q []"
  by (simp add: dict_get_update dict_get_absent)

lemma start_loop_result:
  assumes "start_loop mgr t0 duration player cs bank = (mgr1, loop)"
  shows "loop = new_loop t0 duration player cs"
    and "map_of (active_loops mgr1) (loop_id loop) = Some loop"
    and "history_of mgr1 q = history_of mgr q"
  using assms
  by (auto simp: start_loop_def Let_def history_of_def update_conv' dict_get_update dict_get_absent)

lemma complete_loop_archives:
  assumes "map_of (active_loops m1) lid = Some l"
  shows "\<exists>m2. complete_loop m1 t lid
             = Inr (m2, Completed (loop_loop_number l) (loop_statistics l t) True) \<and>
           active_loops m2 = AList.delete lid (active_loops m1) \<and>
           history_of m2 (loop_player_id l) = history_of m1 (loop_player_id l) @ [completed_loop l t] \<and>
           (\<forall>q. q \<noteq> loop_player_id l \<longrightarrow> history_of m2 q = history_of m1 q)"
proof -
  have p: "loop_player_id (completed_loop l t) = loop_player_id l"
    and n: "loop_loop_number (completed_loop l t) = loop_loop_number l"
    by (simp_all add: completed_loop_def)
  show ?thesis
    using assms
    by (simp add: complete_loop_def Let_def p n history_of_def dict_get_update dict_get_ensure_key
        del: if_image_distrib)
qed

lemma update_loop_timer_unknown:
  "lid \<notin> fst ` set (active_loops m) \<Longrightarrow> update_loop_timer m t lid e = (m, Inr NotFound)"
  by (simp add: update_loop_timer_def lookup_absent)

lemma update_loop_timer_expired:
  assumes a: "map_of (active_loops m1) lid = Some l"
    and e: "duration_seconds l \<le> elapsed"
    and s: "loop_status l = ''active''"
  shows "\<exists>m2. update_loop_timer m1 t lid elapsed
             = (m2, Inr (Completed (loop_loop_number l) (loop_statistics l t) True)) \<and>
           active_loops m2 = AList.delete lid (active_loops m1) \<and>
           history_of m2 (loop_player_id l)
             = history_of m1 (loop_player_id l) @ [completed_loop (l\<lparr>time_remaining := 0\<rparr>) t] \<and>
           (\<forall>q. q \<noteq> loop_player_id l \<longrightarrow> history_of m2 q = history_of m1 q)"
proof -
  let ?l = "l\<lparr>time_remaining := 0\<rparr>"
  let ?m = "m1\<lparr>active_loops := AList.update lid ?l (active_loops m1)\<rparr>"
  have r: "max 0 (duration_seconds l - elapsed) = 0" using e by simp
  have look: "map_of (active_loops ?m) lid = Some ?l" by (simp add: update_conv')
  from complete_loop_archives [OF look, of t] obtain m2 where
    c: "complete_loop ?m t lid = Inr (m2, Completed (loop_loop_number ?l) (loop_statistics ?l t) True)"
    and act: "active_loops m2 = AList.delete lid (active_loops ?m)"
    and h: "history_of m2 (loop_player_id ?l) = history_of ?m (loop_player_id ?l) @ [completed_loop ?l t]"
    and o: "\<forall>q. q \<noteq> loop_player_id ?l \<longrightarrow> history_of m2 q = history_of ?m q"
    by blast
  have hm: "history_of ?m q = history_of m1 q" for q by (simp add: history_of_def)
  have st: "loop_statistics ?l t = loop_statistics l t" by (simp add: loop_statistics_def)
  have "update_loop_timer m1 t lid elapsed
          = (m2, Inr (Completed (loop_loop_number l) (loop_statistics l t) True))"
    using a s c by (simp add: update_loop_timer_def r Let_def st)
  moreover have "active_loops m2 = AList.delete lid (active_loops m1)"
    using act by (simp add: delete_update_same)
  moreover have "history_of m2 (loop_player_id l)
             = history_of m1 (loop_player_id l) @ [completed_loop ?l t]"
    using h by (simp add: hm)
  moreover have "\<forall>q. q \<noteq> loop_player_id l \<longrightarrow> history_of m2 q = history_of m1 q"
    using o by (simp add: hm)
  ultimately show ?thesis by blast
qed

text \<open>
  C6. A loop that \<^verbatim>\<open>start_loop\<close> has started and that is then completed, by the timer
  reaching the loop's duration or by \<^verbatim>\<open>_complete_loop\<close> itself, leaves exactly one more
  record in the history of its agent, every other history as it was, and its id out of
  the active table; \<^verbatim>\<open>update_loop_timer\<close> on the same id then reports not_found and
  changes nothing.
\<close>

theorem loop_lifecycle:
  assumes s: "start_loop mgr t0 duration player cs bank = (mgr1, loop)"
    and d: "duration \<le> elapsed"
  shows "(\<exists>mgr2. update_loop_timer mgr1 t1 (loop_id loop) elapsed
                 = (mgr2, Inr (Completed (loop_number cs + 1) (loop_statistics loop t1) True)) \<and>
           history_of mgr2 player
             = history_of mgr player @ [completed_loop (loop\<lparr>time_remaining := 0\<rparr>) t1] \<and>
           (\<forall>q. q \<noteq> player \<longrightarrow> history_of mgr2 q = history_of mgr q) \<and>
           loop_id loop \<notin> fst ` set (active_loops mgr2) \<and>
           update_loop_timer mgr2 t2 (loop_id loop) elapsed2 = (mgr2, Inr NotFound) \<and>
           result_status NotFound = ''not_found'') \<and>
         (\<exists>mgr3. complete_loop mgr1 t1 (loop_id loop)
                 = Inr (mgr3, Completed (loop_number cs + 1) (loop_statistics loop t1) True) \<and>
           history_of mgr3 player = history_of mgr player @ [completed_loop loop t1] \<and>
           (\<forall>q. q \<noteq> player \<longrightarrow> history_of mgr3 q = history_of mgr q) \<and>
           loop_id loop \<notin> fst ` set (active_loops mgr3) \<and>
           update_loop_timer mgr3 t2 (loop_id loop) elapsed2 = (mgr3, Inr NotFound))"
proof -
  note st = start_loop_result [OF s]
  have fields: "loop_player_id loop = player" "loop_loop_number loop = loop_number cs + 1"
    "duration_seconds loop = duration" "loop_status loop = ''active''"
    by (simp_all add: st(1) new_loop_def)
  from update_loop_timer_expired [OF st(2), of elapsed t1] d fields obtain mgr2 where
    u: "update_loop_timer mgr1 t1 (loop_id loop) elapsed
          = (mgr2, Inr (Completed (loop_number cs + 1) (loop_statistics loop t1) True))"
    and a: "active_loops mgr2 = AList.delete (loop_id loop) (active_loops mgr1)"
    and h: "history_of mgr2 player
          = history_of mgr1 player @ [completed_loop (loop\<lparr>time_remaining := 0\<rparr>) t1]"
    and o: "\<forall>q. q \<noteq> player \<longrightarrow> history_of mgr2 q = history_of mgr1 q"
    by auto
  have gone: "loop_id loop \<notin> fst ` set (active_loops mgr2)"
    by (simp only: a delete_notin_dom not_False_eq_True)
  from u h o gone update_loop_timer_unknown [OF gone]
  have timer: "\<exists>mgr2. update_loop_timer mgr1 t1 (loop_id loop) elapsed
                 = (mgr2, Inr (Completed (loop_number cs + 1) (loop_statistics loop t1) True)) \<and>
           history_of mgr2 player
             = history_of mgr player @ [completed_loop (loop\<lparr>time_remaining := 0\<rparr>) t1] \<and>
           (\<forall>q. q \<noteq> player \<longrightarrow> history_of mgr2 q = history_of mgr q) \<and>
           loop_id loop \<notin> fst ` set (active_loops mgr2) \<and>
           update_loop_timer mgr2 t2 (loop_id loop) elapsed2 = (mgr2, Inr NotFound) \<and>
           result_status NotFound = ''not_found''"
    by (auto simp: st(3))
  from complete_loop_archives [OF st(2), of t1] fields obtain mgr3 where
    c: "complete_loop mgr1 t1 (loop_id loop)
          = Inr (mgr3, Completed (loop_number cs + 1) (loop_statistics loop t1) True)"
    and a3: "active_loops mgr3 = AList.delete (loop_id loop) (active_loops mgr1)"
    and h3: "history_of mgr3 player = history_of mgr1 player @ [completed_loop loop t1]"
    and o3: "\<forall>q. q \<noteq> player \<longrightarrow> history_of mgr3 q = history_of mgr1 q"
    by auto
  have gone3: "loop_id loop \<notin> fst ` set (active_loops mgr3)"
    by (simp only: a3 delete_notin_dom not_False_eq_True)
  from c h3 o3 gone3 update_loop_timer_unknown [OF gone3]
  have direct: "\<exists>mgr3. complete_loop mgr1 t1 (loop_id loop)
                 = Inr (mgr3, Completed (loop_number cs + 1) (loop_statistics loop t1) True) \<and>
           history_of mgr3 player = history_of mgr player @ [completed_loop loop t1] \<and>
           (\<forall>q. q \<noteq> player \<longrightarrow> history_of mgr3 q = history_of mgr q) \<and>
           loop_id loop \<notin> fst ` set (active_loops mgr3) \<and>
           update_loop_timer mgr3 t2 (loop_id loop) elapsed2 = (mgr3, Inr NotFound)"
    by (auto simp: st(3))
  from timer direct show ?thesis ..
qed

theorem loop_lifecycle_witness:
  "loop_id (snd (start_loop empty_manager 0 300 ''p1'' (initialize_cognitive_state 0 ''p1'') empty_bank))
     = ''p1_loop_1'' \<and>
   history_of empty_manager ''p1'' = [] \<and>
   (300 :: int) \<le> 300 \<and>
   (\<exists>mgr2. update_loop_timer
             (fst (start_loop empty_manager 0 300 ''p1'' (initialize_cognitive_state 0 ''p1'') empty_bank))
             310 ''p1_loop_1'' 300
           = (mgr2, Inr (Completed 1
                \<lparr>stat_protocols_completed = 0, stat_decisions_made = 0, stat_items_collected = 0,
                 stat_memories_formed = 0, stat_completion_time = 310\<rparr> True)) \<and>
         length (history_of mgr2 ''p1'') = 1 \<and>
         ''p1_loop_1'' \<notin> fst ` set (active_loops mgr2) \<and>
         update_loop_timer mgr2 320 ''p1_loop_1'' 0 = (mgr2, Inr NotFound))"
proof -
  let ?S = "start_loop empty_manager 0 300 ''p1'' (initialize_cognitive_state 0 ''p1'') empty_bank"
  have i: "loop_id (snd ?S) = ''p1_loop_1''" by code_simp
  have h0: "history_of empty_manager ''p1'' = []" by code_simp
  have n: "loop_number (initialize_cognitive_state 0 ''p1'') + 1 = 1" by code_simp
  have st: "loop_statistics (snd ?S) 310 =
      \<lparr>stat_protocols_completed = 0, stat_decisions_made = 0, stat_items_collected = 0,
       stat_memories_formed = 0, stat_completion_time = 310\<rparr>"
    by code_simp
  have p: "?S = (fst ?S, snd ?S)" by simp
  have d: "(300 :: int) \<le> 300" by simp
  from loop_lifecycle [OF p d, of 310 320 0] obtain mgr2 where
    "update_loop_timer (fst ?S) 310 (loop_id (snd ?S)) 300
       = (mgr2, Inr (Completed (loop_number (initialize_cognitive_state 0 ''p1'') + 1)
                      (loop_statistics (snd ?S) 310) True))"
    "history_of mgr2 ''p1''
       = history_of empty_manager ''p1'' @ [completed_loop ((snd ?S)\<lparr>time_remaining := 0\<rparr>) 310]"
    "loop_id (snd ?S) \<notin> fst ` set (active_loops mgr2)"
    "update_loop_timer mgr2 320 (loop_id (snd ?S)) 0 = (mgr2, Inr NotFound)"
    by blast
  then have "update_loop_timer (fst ?S) 310 ''p1_loop_1'' 300
           = (mgr2, Inr (Completed 1
                \<lparr>stat_protocols_completed = 0, stat_decisions_made = 0, stat_items_collected = 0,
                 stat_memories_formed = 0, stat_completion_time = 310\<rparr> True)) \<and>
         length (history_of mgr2 ''p1'') = 1 \<and>
         ''p1_loop_1'' \<notin> fst ` set (active_loops mgr2) \<and>
         update_loop_timer mgr2 320 ''p1_loop_1'' 0 = (mgr2, Inr NotFound)"
    by (simp add: i h0 n st)
  then have "\<exists>mgr2. update_loop_timer (fst ?S) 310 ''p1_loop_1'' 300
           = (mgr2, Inr (Completed 1
                \<lparr>stat_protocols_completed = 0, stat_decisions_made = 0, stat_items_collected = 0,
                 stat_memories_formed = 0, stat_completion_time = 310\<rparr> True)) \<and>
         length (history_of mgr2 ''p1'') = 1 \<and>
         ''p1_loop_1'' \<notin> fst ` set (active_loops mgr2) \<and>
         update_loop_timer mgr2 320 ''p1_loop_1'' 0 = (mgr2, Inr NotFound)" ..
  with i h0 d show ?thesis by (intro conjI)
qed

section \<open>Unlocking\<close>

lemma update_module_lookup:
  "map_of (modules (update_module st k d)) n =
     (if n = k then map_option (\<lambda>m. gain_experience m d) (map_of (modules st) k)
      else map_of (modules st) n)"
proof (cases "map_of (modules st) k")
  case None
  then show ?thesis by (simp add: update_module_def)
next
  case (Some m)
  then show ?thesis
    by (simp add: update_module_def update_dominant_traits_def calculate_evolution_score_def
        Let_def update_conv')
qed

lemma unlock_step_lookup:
  "map_of (modules (unlock_step k st)) n =
     (if n = k
      then map_option
             (\<lambda>m. if status m = LOCKED \<and> is_unlocked m (to_dict st)
                  then m\<lparr>status := NASCENT, level := 5\<rparr> else m)
             (map_of (modules st) k)
      else map_of (modules st) n)"
proof (cases "map_of (modules st) k")
  case None
  then show ?thesis by (simp add: unlock_step_def)
next
  case (Some m)
  then show ?thesis by (simp add: unlock_step_def update_conv')
qed

text \<open>
  A property \<open>P\<close> of the module stored under a name survives every phase of
  \<^verbatim>\<open>apply_decision_impact\<close>, provided the experience gains applied to that name and the
  unlock transition preserve it.
\<close>

lemma update_module_keeps:
  assumes "\<exists>m. map_of (modules st) n = Some m \<and> P m"
    and "k = n \<Longrightarrow> \<forall>m. P m \<longrightarrow> P (gain_experience m d)"
  shows "\<exists>m. map_of (modules (update_module st k d)) n = Some m \<and> P m"
  using assms by (auto simp: update_module_lookup)

lemma apply_impact_keeps:
  assumes "\<exists>m. map_of (modules st) n = Some m \<and> P m"
    and "\<forall>p \<in> set impact. fst p = n \<longrightarrow> (\<forall>m. P m \<longrightarrow> P (gain_experience m (snd p)))"
  shows "\<exists>m. map_of (modules (fold apply_impact impact st)) n = Some m \<and> P m"
  using assms
proof (induction impact arbitrary: st)
  case Nil
  then show ?case by simp
next
  case (Cons p impact)
  have "\<exists>m. map_of (modules (apply_impact p st)) n = Some m \<and> P m"
    unfolding apply_impact_def using Cons.prems
    by (auto intro!: update_module_keeps)
  then show ?case using Cons.IH Cons.prems(2) by simp
qed

lemma apply_mentor_bonus_keeps:
  assumes "\<exists>m. map_of (modules st) n = Some m \<and> P m"
    and "\<forall>m. P m \<longrightarrow> P (gain_experience m (5 / 100))"
  shows "\<exists>m. map_of (modules (fold apply_mentor_bonus traits st)) n = Some m \<and> P m"
  using assms
proof (induction traits arbitrary: st)
  case Nil
  then show ?case by simp
next
  case (Cons t traits)
  have "\<exists>m. map_of (modules (apply_mentor_bonus t st)) n = Some m \<and> P m"
    unfolding apply_mentor_bonus_def using Cons.prems
    by (auto intro!: update_module_keeps)
  then show ?case using Cons.IH Cons.prems(2) by simp
qed

lemma unlock_step_keeps:
  assumes "\<exists>m. map_of (modules st) n = Some m \<and> P m"
    and "\<forall>m. status m = LOCKED \<longrightarrow> P m \<longrightarrow> P (m\<lparr>status := NASCENT, level := 5\<rparr>)"
  shows "\<exists>m. map_of (modules (unlock_step k st)) n = Some m \<and> P m"
proof -
  from assms(1) obtain m where m: "map_of (modules st) n = Some m" "P m" by blast
  show ?thesis
  proof (cases "n = k \<and> status m = LOCKED \<and> is_unlocked m (to_dict st)")
    case True
    with m have "map_of (modules (unlock_step k st)) n = Some (m\<lparr>status := NASCENT, level := 5\<rparr>)"
      by (simp add: unlock_step_lookup)
    moreover from True m assms(2) have "P (m\<lparr>status := NASCENT, level := 5\<rparr>)" by blast
    ultimately show ?thesis by blast
  next
    case False
    with m have "map_of (modules (unlock_step k st)) n = Some m"
      by (auto simp: unlock_step_lookup)
    with m show ?thesis by blast
  qed
qed

lemma unlock_steps_keep:
  assumes "\<exists>m. map_of (modules st) n = Some m \<and> P m"
    and "\<forall>m. status m = LOCKED \<longrightarrow> P m \<longrightarrow> P (m\<lparr>status := NASCENT, level := 5\<rparr>)"
  shows "\<exists>m. map_of (modules (fold unlock_step ks st)) n = Some m \<and> P m"
  using assms
proof (induction ks arbitrary: st)
  case Nil
  then show ?case by simp
next
  case (Cons k ks)
  have "\<exists>m. map_of (modules (unlock_step k st)) n = Some m \<and> P m"
    using Cons.prems by (rule unlock_step_keeps)
  then show ?case using Cons.IH Cons.prems(2) by simp
qed

lemma trigger_breakthrough_keeps:
  assumes "\<exists>m. map_of (modules st) n = Some m \<and> P m"
    and "\<forall>m. P m \<longrightarrow> P (gain_experience m 10)"
  shows "\<exists>m. map_of (modules (trigger_breakthrough st k)) n = Some m \<and> P m"
  unfolding trigger_breakthrough_def Let_def using assms
  by (auto intro!: update_module_keeps)

lemma apply_decision_impact_keeps:
  assumes h: "\<exists>m. map_of (modules st) n = Some m \<and> P m"
    and i: "\<forall>p \<in> set impact. fst p = n \<longrightarrow> (\<forall>m. P m \<longrightarrow> P (gain_experience m (snd p)))"
    and b: "\<forall>m. P m \<longrightarrow> P (gain_experience m (5 / 100))"
    and t: "\<forall>m. P m \<longrightarrow> P (gain_experience m 10)"
    and u: "\<forall>m. status m = LOCKED \<longrightarrow> P m \<longrightarrow> P (m\<lparr>status := NASCENT, level := 5\<rparr>)"
  shows "\<exists>m. map_of (modules (apply_decision_impact st impact mentor draws)) n = Some m \<and> P m"
proof -
  let ?s1 = "fold apply_impact impact st"
  let ?s2 = "case mentor of None \<Rightarrow> ?s1
             | Some mn \<Rightarrow> (case map_of MENTORS mn of None \<Rightarrow> ?s1
                           | Some traits \<Rightarrow> fold apply_mentor_bonus traits ?s1)"
  have 1: "\<exists>m. map_of (modules ?s1) n = Some m \<and> P m"
    using h i by (rule apply_impact_keeps)
  have 2: "\<exists>m. map_of (modules ?s2) n = Some m \<and> P m"
    using 1 apply_mentor_bonus_keeps [OF 1 b] by (auto split: option.splits)
  have 3: "\<exists>m. map_of (modules (check_module_unlocks ?s2)) n = Some m \<and> P m"
    unfolding check_module_unlocks_def using 2 u by (rule unlock_steps_keep)
  have 4: "\<exists>m. map_of (modules (trigger_breakthrough (check_module_unlocks ?s2) k)) n = Some m \<and> P m"
    for k using 3 t by (rule trigger_breakthrough_keeps)
  show ?thesis
    unfolding apply_decision_impact_def Let_def using 3 4 by (simp split: if_splits)
qed

lemma apply_decisions_keeps:
  assumes "\<exists>m. map_of (modules st) n = Some m \<and> P m"
    and "\<forall>c \<in> set calls. \<forall>p \<in> set (fst c).
           fst p = n \<longrightarrow> (\<forall>m. P m \<longrightarrow> P (gain_experience m (snd p)))"
    and "\<forall>m. P m \<longrightarrow> P (gain_experience m (5 / 100))"
    and "\<forall>m. P m \<longrightarrow> P (gain_experience m 10)"
    and "\<forall>m. status m = LOCKED \<longrightarrow> P m \<longrightarrow> P (m\<lparr>status := NASCENT, level := 5\<rparr>)"
  shows "\<exists>m. map_of (modules (apply_decisions st calls)) n = Some m \<and> P m"
  using assms(1,2)
proof (induction calls arbitrary: st)
  case Nil
  then show ?case by (simp add: apply_decisions_def)
next
  case (Cons c calls)
  have "\<exists>m. map_of (modules (apply_decision_impact st (fst c) (fst (snd c)) (snd (snd c)))) n
              = Some m \<and> P m"
    using Cons.prems(1) _ assms(3,4,5)
  proof (rule apply_decision_impact_keeps)
    show "\<forall>p \<in> set (fst c). fst p = n \<longrightarrow> (\<forall>m. P m \<longrightarrow> P (gain_experience m (snd p)))"
      using Cons.prems(2) by simp
  qed
  then have "\<exists>m. map_of (modules (apply_decisions
                (apply_decision_impact st (fst c) (fst (snd c)) (snd (snd c))) calls)) n
              = Some m \<and> P m"
    using Cons.prems(2) by (intro Cons.IH) simp_all
  then show ?case by (simp add: apply_decisions_def)
qed

lemma gain_experience_locked_iff:
  "status (gain_experience m d) = LOCKED \<longleftrightarrow> level (gain_experience m d) = 0"
  by (simp add: gain_experience_def update_status_def)

lemma gain_experience_stays_unlocked:
  assumes "status m \<noteq> LOCKED \<and> 0 < level m" and "0 \<le> d"
  shows "status (gain_experience m d) \<noteq> LOCKED \<and> 0 < level (gain_experience m d)"
proof -
  from assms have "0 < level (gain_experience m d)"
    by (simp add: gain_experience_def update_status_def)
  then show ?thesis by (simp add: gain_experience_locked_iff)
qed

lemma apply_decisions_append:
  "apply_decisions st (xs @ ys) = apply_decisions (apply_decisions st xs) ys"
  by (simp add: apply_decisions_def)

lemma apply_decisions_split:
  assumes "i \<le> j"
  shows "apply_decisions st (take j calls)
           = apply_decisions (apply_decisions st (take i calls)) (drop i (take j calls))"
proof -
  have "take i (take j calls) = take i calls" using assms by (simp add: min_absorb1)
  then have "take i calls @ drop i (take j calls) = take j calls"
    by (metis append_take_drop_id)
  then have "apply_decisions st (take j calls)
               = apply_decisions st (take i calls @ drop i (take j calls))"
    by (rule arg_cong [symmetric])
  then show ?thesis by (simp only: apply_decisions_append)
qed

text \<open>
  C5, counterexample. From the initial state of p1, a first call raises empathy to 30 and
  so unlocks trust (NASCENT, level 5); a second call takes 5 off trust and 1 off empathy:
  the level of trust is 0, its status is recomputed to LOCKED, and with empathy at 29 the
  unlock check leaves it so.
\<close>

theorem trust_locked_again:
  "map_option (\<lambda>m. (level m, status m))
     (map_of (modules (apply_decisions (initialize_cognitive_state 0 ''p1'') [raise_empathy]))
        ''trust'') = Some (5, NASCENT) \<and>
   map_option (\<lambda>m. (level m, status m))
     (map_of (modules (apply_decisions (initialize_cognitive_state 0 ''p1'')
                         [raise_empathy, drain_trust])) ''trust'') = Some (0, LOCKED)"
  by code_simp

text \<open>
  C5, as amended. In any sequence of \<^verbatim>\<open>apply_decision_impact\<close> calls, a module that is not
  LOCKED after \<open>i\<close> calls is still a module of the state after \<open>j \<ge> i\<close> calls, and it is
  LOCKED there only if its level is exactly 0; if its level was positive and no call in
  between gives it a negative delta, it is not LOCKED.
\<close>

theorem relocked_only_at_level_zero:
  assumes ij: "i \<le> j"
    and m: "map_of (modules (apply_decisions st (take i calls))) n = Some m"
    and s: "status m \<noteq> LOCKED"
  shows "\<exists>m'. map_of (modules (apply_decisions st (take j calls))) n = Some m' \<and>
           (status m' = LOCKED \<longrightarrow> level m' = 0) \<and>
           (0 < level m \<and>
            list_all (\<lambda>c. list_all (\<lambda>p. fst p = n \<longrightarrow> 0 \<le> snd p) (fst c)) (drop i (take j calls))
            \<longrightarrow> status m' \<noteq> LOCKED)"
proof -
  let ?si = "apply_decisions st (take i calls)"
  let ?between = "drop i (take j calls)"
  have split: "apply_decisions st (take j calls) = apply_decisions ?si ?between"
    using ij by (rule apply_decisions_split)
  have "\<exists>m. map_of (modules ?si) n = Some m \<and> (status m = LOCKED \<longrightarrow> level m = 0)"
    using m s by simp
  then have "\<exists>m'. map_of (modules (apply_decisions ?si ?between)) n = Some m' \<and>
                 (status m' = LOCKED \<longrightarrow> level m' = 0)"
    by (rule apply_decisions_keeps) (simp_all add: gain_experience_locked_iff)
  then obtain m' where m': "map_of (modules (apply_decisions ?si ?between)) n = Some m'"
    and z: "status m' = LOCKED \<longrightarrow> level m' = 0"
    by blast
  have "status m' \<noteq> LOCKED"
    if pos: "0 < level m"
      and nonneg: "list_all (\<lambda>c. list_all (\<lambda>p. fst p = n \<longrightarrow> 0 \<le> snd p) (fst c)) ?between"
  proof -
    have "\<exists>m. map_of (modules ?si) n = Some m \<and> (status m \<noteq> LOCKED \<and> 0 < level m)"
      using m s pos by simp
    then have "\<exists>m'. map_of (modules (apply_decisions ?si ?between)) n = Some m' \<and>
                 (status m' \<noteq> LOCKED \<and> 0 < level m')"
    proof (rule apply_decisions_keeps)
      show "\<forall>c \<in> set ?between. \<forall>p \<in> set (fst c). fst p = n \<longrightarrow>
              (\<forall>m. status m \<noteq> LOCKED \<and> 0 < level m \<longrightarrow>
                 status (gain_experience m (snd p)) \<noteq> LOCKED \<and> 0 < level (gain_experience m (snd p)))"
      proof (intro ballI impI allI)
        fix c :: "(string \<times> real) list \<times> string option \<times> Draws"
          and p :: "string \<times> real" and m :: CognitiveModule
        assume "c \<in> set ?between" and "p \<in> set (fst c)" and "fst p = n"
          and P: "status m \<noteq> LOCKED \<and> 0 < level m"
        with nonneg have "0 \<le> snd p" by (auto simp: list_all_iff)
        with P show "status (gain_experience m (snd p)) \<noteq> LOCKED \<and>
                     0 < level (gain_experience m (snd p))"
          by (rule gain_experience_stays_unlocked)
      qed
    qed (simp_all add: gain_experience_stays_unlocked)
    with m' show ?thesis by simp
  qed
  with m' z split show ?thesis by simp
qed

theorem relocked_only_at_level_zero_witness:
  "(1 :: nat) \<le> 2 \<and>
   map_option (\<lambda>m. (level m, status m))
     (map_of (modules (apply_decisions (initialize_cognitive_state 0 ''p1'')
                         (take 1 [raise_empathy, raise_trust]))) ''trust'') = Some (5, NASCENT) \<and>
   list_all (\<lambda>c. list_all (\<lambda>p. fst p = ''trust'' \<longrightarrow> 0 \<le> snd p) (fst c))
     (drop 1 (take 2 [raise_empathy, raise_trust])) \<and>
   (\<exists>m'. map_of (modules (apply_decisions (initialize_cognitive_state 0 ''p1'')
                            (take 2 [raise_empathy, raise_trust]))) ''trust'' = Some m' \<and>
         status m' \<noteq> LOCKED \<and> level m' = 8)"
proof -
  let ?calls = "[raise_empathy, raise_trust]"
  let ?s0 = "initialize_cognitive_state 0 ''p1''"
  have v1: "map_option (\<lambda>m. (level m, status m))
     (map_of (modules (apply_decisions ?s0 (take 1 ?calls))) ''trust'') = Some (5, NASCENT)"
    by code_simp
  then obtain m where m: "map_of (modules (apply_decisions ?s0 (take 1 ?calls))) ''trust'' = Some m"
    and lm: "level m = 5" and sm: "status m = NASCENT"
    by auto
  have nn: "list_all (\<lambda>c. list_all (\<lambda>p. fst p = ''trust'' \<longrightarrow> 0 \<le> snd p) (fst c))
     (drop 1 (take 2 ?calls))"
    by (simp add: raise_trust_def)
  have v2: "map_option level
     (map_of (modules (apply_decisions ?s0 (take 2 ?calls))) ''trust'') = Some 8"
    by code_simp
  have le: "(1 :: nat) \<le> 2" by simp
  have "status m \<noteq> LOCKED" using sm by simp
  from relocked_only_at_level_zero [OF le m this] lm nn v2
  have "\<exists>m'. map_of (modules (apply_decisions ?s0 (take 2 ?calls))) ''trust'' = Some m' \<and>
         status m' \<noteq> LOCKED \<and> level m' = 8"
    by auto
  with le v1 nn show ?thesis by (intro conjI)
qed

end
